theory Spec2Isabelle
  imports Complex_Main "HOL-Library.Log_Nat" "HOL-Library.Multiset"
begin

section \<open>JavaScript numbers and dates\<close>

text \<open>
  The engine computes with JavaScript numbers, which are IEEE 754 doubles. A number is
  modelled as either \<open>NaN\<close> or a finite value, a real that the operations keep
  representable: every arithmetic operation computes the exact result and rounds it to the
  nearest number with a significand of 53 bits, ties to the even significand, as the
  hardware does. The exponent is not bounded, so the model has no overflow to an infinity
  and no gradual underflow; the counts, days and timestamps of the engine stay far from
  both. \<open>NaN\<close> enters the engine through dates only: \<open>new Date(s).getTime()\<close> is
  \<open>NaN\<close> when the string \<open>s\<close> does not parse. Arithmetic propagates \<open>NaN\<close>, every
  comparison with \<open>NaN\<close> is false.
\<close>

subsection \<open>Rounding to a double\<close>

text \<open>
  \<open>ilog2 x\<close> is the binary exponent of a positive \<open>x\<close>, the integer \<open>e\<close> with
  \<open>2^e \<le> x < 2^(e+1)\<close>. It is computed from the bit length of an integer, of
  \<open>floor x\<close> when \<open>x \<ge> 1\<close> and of \<open>ceil (1 / x) - 1\<close> otherwise.
\<close>

definition ilog2 :: "real \<Rightarrow> int" where
  "ilog2 x = (if 1 \<le> x then int (floorlog 2 (nat \<lfloor>x\<rfloor>)) - 1
              else - int (floorlog 2 (nat (\<lceil>1 / x\<rceil> - 1))))"

text \<open>Rounding to the nearest integer, a tie to the even one.\<close>

definition roundHalfEven :: "real \<Rightarrow> int" where
  "roundHalfEven y =
     (let f = \<lfloor>y\<rfloor>; r = y - of_int f
      in if r < 1 / 2 then f else if 1 / 2 < r then f + 1 else if even f then f else f + 1)"

text \<open>
  A positive \<open>x\<close> with exponent \<open>e\<close> is scaled by \<open>2^(52 - e)\<close> into
  \<open>[2^52, 2^53)\<close>, rounded to an integer and scaled back.
\<close>

definition roundPos :: "real \<Rightarrow> real" where
  "roundPos x =
     (let e = ilog2 x
      in if e \<le> 52 then of_int (roundHalfEven (x * 2 ^ nat (52 - e))) / 2 ^ nat (52 - e)
         else of_int (roundHalfEven (x / 2 ^ nat (e - 52))) * 2 ^ nat (e - 52))"

definition roundDouble :: "real \<Rightarrow> real" where
  "roundDouble x = (if x = 0 then 0 else if 0 < x then roundPos x else - roundPos (- x))"

subsection \<open>Numbers\<close>

datatype jsnum = NaN | Num real

text \<open>
  The operators \<open>+\<close>, \<open>-\<close>, \<open>*\<close> and \<open>/\<close>. The engine divides by a constant, by a
  number it has just tested to be positive, or by \<open>NaN\<close>; a zero divisor, which would give
  an infinity, does not occur.
\<close>

fun jadd :: "jsnum \<Rightarrow> jsnum \<Rightarrow> jsnum" where
  "jadd (Num a) (Num b) = Num (roundDouble (a + b))"
| "jadd _ _ = NaN"

fun jsub :: "jsnum \<Rightarrow> jsnum \<Rightarrow> jsnum" where
  "jsub (Num a) (Num b) = Num (roundDouble (a - b))"
| "jsub _ _ = NaN"

fun jmul :: "jsnum \<Rightarrow> jsnum \<Rightarrow> jsnum" where
  "jmul (Num a) (Num b) = Num (roundDouble (a * b))"
| "jmul _ _ = NaN"

fun jdiv :: "jsnum \<Rightarrow> jsnum \<Rightarrow> jsnum" where
  "jdiv (Num a) (Num b) = (if b = 0 then NaN else Num (roundDouble (a / b)))"
| "jdiv _ _ = NaN"

text \<open>
  \<open>Math.floor\<close>, \<open>Math.ceil\<close> and \<open>Math.max\<close>; their results on doubles are doubles,
  nothing is rounded.
\<close>

fun jfloor :: "jsnum \<Rightarrow> jsnum" where
  "jfloor (Num a) = Num (of_int \<lfloor>a\<rfloor>)"
| "jfloor NaN = NaN"

fun jceil :: "jsnum \<Rightarrow> jsnum" where
  "jceil (Num a) = Num (of_int \<lceil>a\<rceil>)"
| "jceil NaN = NaN"

fun jmax :: "jsnum \<Rightarrow> jsnum \<Rightarrow> jsnum" where
  "jmax (Num a) (Num b) = Num (max a b)"
| "jmax _ _ = NaN"

text \<open>The comparisons \<open><\<close>, \<open><=\<close>, \<open>>\<close>, \<open>>=\<close> and \<open>===\<close>.\<close>

fun jlt :: "jsnum \<Rightarrow> jsnum \<Rightarrow> bool" where
  "jlt (Num a) (Num b) = (a < b)"
| "jlt _ _ = False"

fun jle :: "jsnum \<Rightarrow> jsnum \<Rightarrow> bool" where
  "jle (Num a) (Num b) = (a \<le> b)"
| "jle _ _ = False"

fun jgt :: "jsnum \<Rightarrow> jsnum \<Rightarrow> bool" where
  "jgt (Num a) (Num b) = (a > b)"
| "jgt _ _ = False"

fun jge :: "jsnum \<Rightarrow> jsnum \<Rightarrow> bool" where
  "jge (Num a) (Num b) = (a \<ge> b)"
| "jge _ _ = False"

fun jeq :: "jsnum \<Rightarrow> jsnum \<Rightarrow> bool" where
  "jeq (Num a) (Num b) = (a = b)"
| "jeq _ _ = False"

text \<open>\<open>x || y\<close> on numbers: \<open>0\<close> and \<open>NaN\<close> are falsy.\<close>

fun orElse :: "jsnum \<Rightarrow> jsnum \<Rightarrow> jsnum" where
  "orElse (Num a) y = (if a = 0 then y else Num a)"
| "orElse NaN y = y"

subsection \<open>Dates\<close>

text \<open>
  A \<open>Date\<close> object: the time value in milliseconds since the epoch, or an invalid date.
\<close>

datatype jsdate = InvalidDate | Date int

fun getTime :: "jsdate \<Rightarrow> jsnum" where
  "getTime (Date t) = Num (of_int t)"
| "getTime InvalidDate = NaN"

text \<open>
  \<open>Math.floor((a.getTime() - b.getTime()) / (1000 * 60 * 60 * 24))\<close>, the whole days from
  \<open>b\<close> to \<open>a\<close>, which the source writes out at each place it is used.
\<close>

definition wholeDays :: "jsdate \<Rightarrow> jsdate \<Rightarrow> jsnum" where
  "wholeDays a b = jfloor (jdiv (jsub (getTime a) (getTime b)) (Num (1000 * 60 * 60 * 24)))"

section \<open>Data model\<close>

text \<open>
  \<open>InventoryBatch\<close>. The numeric fields are finite numbers. The two date fields hold
  what \<open>new Date(...)\<close> makes of the stored string.
\<close>

record batch =
  id :: string
  drugName :: string
  program :: string
  dosage :: string
  unit :: string
  batchNumber :: string
  beginningInventory :: real
  quantityReceived :: real
  dateReceived :: jsdate
  unitCost :: real
  quantityDispensed :: real
  expirationDate :: jsdate
  remarks :: string
  branchId :: "string option"

record reorderPointConfig =
  leadTimeDays :: real
  safetyStockPercentage :: real
  minimumThreshold :: real

text \<open>The literal \<open>0.3\<close> of the source denotes the double nearest to three tenths.\<close>

definition DEFAULT_REORDER_CONFIG :: reorderPointConfig where
  "DEFAULT_REORDER_CONFIG =
     \<lparr>leadTimeDays = 14, safetyStockPercentage = roundDouble 0.3, minimumThreshold = 20\<rparr>"

text \<open>
  The object returned by \<open>getStockStatus\<close>. Its field \<open>isLowStock\<close> is named
  \<open>isLowStockField\<close> here, to keep the name \<open>isLowStock\<close> for the function.
\<close>

record stockStatus =
  currentStock :: real
  reorderPoint :: jsnum
  isLowStockField :: bool
  isOutOfStock :: bool
  avgDailyUsage :: jsnum
  daysOfStockRemaining :: jsnum

section \<open>Reorder point utilities\<close>

text \<open>
  Every function that reads the clock (\<open>new Date()\<close>) takes the reading, in
  milliseconds since the epoch, as its first argument \<open>today\<close>; the clock does not
  advance during one synchronous call. The stock on hand
  \<open>beginningInventory + quantityReceived - quantityDispensed\<close> is a sum and a difference
  of doubles, each rounded; on counts, integers below \<open>2^53\<close>, both are exact.
\<close>

definition calculateAverageDailyUsage :: "int \<Rightarrow> batch \<Rightarrow> real option \<Rightarrow> jsnum" where
  "calculateAverageDailyUsage today batch daysSinceReceived =
     (let totalDispensed = orElse (Num (quantityDispensed batch)) (Num 0) in
      if jeq totalDispensed (Num 0) then Num 0
      else
        let receivedDate = dateReceived batch;
            computed = wholeDays (Date today) receivedDate;
            days = (case daysSinceReceived of
                      None \<Rightarrow> computed
                    | Some d \<Rightarrow> orElse (Num d) computed)
        in if jle days (Num 0) then Num 0
           else jdiv totalDispensed days)"

definition calculateReorderPoint :: "int \<Rightarrow> batch \<Rightarrow> reorderPointConfig \<Rightarrow> jsnum" where
  "calculateReorderPoint today batch config =
     (let avgDailyUsage = calculateAverageDailyUsage today batch None in
      if jeq avgDailyUsage (Num 0) then Num (minimumThreshold config)
      else
        let baseReorderPoint = jmul avgDailyUsage (Num (leadTimeDays config));
            safetyStock = jmul baseReorderPoint (Num (safetyStockPercentage config));
            calculatedReorderPoint = jceil (jadd baseReorderPoint safetyStock)
        in jmax calculatedReorderPoint (Num (minimumThreshold config)))"

definition isLowStock :: "int \<Rightarrow> batch \<Rightarrow> reorderPointConfig \<Rightarrow> bool" where
  "isLowStock today batch config =
     (let currentStock =
            roundDouble (roundDouble (beginningInventory batch + quantityReceived batch)
                           - quantityDispensed batch) in
      if currentStock \<le> 0 then False
      else
        let reorderPoint = calculateReorderPoint today batch config
        in jle (Num currentStock) reorderPoint)"

definition getStockStatus :: "int \<Rightarrow> batch \<Rightarrow> reorderPointConfig \<Rightarrow> stockStatus" where
  "getStockStatus today batch config =
     (let currentStock =
            roundDouble (roundDouble (beginningInventory batch + quantityReceived batch)
                           - quantityDispensed batch);
          reorderPoint = calculateReorderPoint today batch config;
          avgDailyUsage = calculateAverageDailyUsage today batch None;
          daysOfStockRemaining =
            (if jgt avgDailyUsage (Num 0) then jfloor (jdiv (Num currentStock) avgDailyUsage)
             else if currentStock > 0 then Num 999 else Num 0)
      in \<lparr>currentStock = currentStock,
          reorderPoint = reorderPoint,
          isLowStockField = (currentStock > 0 \<and> jle (Num currentStock) reorderPoint),
          isOutOfStock = (currentStock = 0),
          avgDailyUsage = avgDailyUsage,
          daysOfStockRemaining = daysOfStockRemaining\<rparr>)"

definition calculateReorderQuantity :: "int \<Rightarrow> batch \<Rightarrow> reorderPointConfig \<Rightarrow> jsnum" where
  "calculateReorderQuantity today batch config =
     (let status = getStockStatus today batch config in
      if \<not> isLowStockField status \<and> \<not> isOutOfStock status then Num 0
      else
        let avgDailyUsage = (if jgt (avgDailyUsage status) (Num 0) then avgDailyUsage status else Num 1);
            orderQuantity =
              jceil (jadd (jmul (jmul avgDailyUsage (Num (leadTimeDays config))) (Num 2))
                          (jmul (jmul avgDailyUsage (Num (leadTimeDays config)))
                                (Num (safetyStockPercentage config))))
        in jmax orderQuantity (Num (minimumThreshold config)))"

section \<open>Alert generation\<close>

record branchData =
  userId :: string
  userName :: string
  branchName :: string
  userRole :: string
  inventory :: "batch list"

datatype alertType = Expired | Critical | NearExpiry | LowStock

datatype severity = High | Medium | Low

record branchAlert =
  branchId :: string
  branchName :: string
  userName :: string
  item :: batch
  alertType :: alertType
  severity :: severity
  daysUntilExpiry :: "jsnum option"
  stockLevel :: "real option"

text \<open>
  The body of the inner \<open>forEach\<close> of \<open>generateBranchAlerts\<close>: the alerts pushed for
  one item of one branch, in the order they are pushed. \<open>now\<close> is the clock reading of
  the component, \<open>today\<close> the one of the reorder utilities.
\<close>

definition itemAlerts :: "int \<Rightarrow> int \<Rightarrow> branchData \<Rightarrow> batch \<Rightarrow> branchAlert list" where
  "itemAlerts now today branch = (\<lambda>item.
      let stockOnHand =
            roundDouble (roundDouble (beginningInventory item + quantityReceived item)
                           - quantityDispensed item);
          expiryDate = expirationDate item;
          daysUntilExpiry = wholeDays expiryDate (Date now);
          expiryPushed =
            (if jlt daysUntilExpiry (Num 0) then
               [\<lparr>branchId = userId branch,
                 branchName = branchData.branchName branch,
                 userName = branchData.userName branch,
                 item = item,
                 alertType = Expired,
                 severity = High,
                 daysUntilExpiry = Some daysUntilExpiry,
                 stockLevel = Some stockOnHand\<rparr>]
             else if jle daysUntilExpiry (Num 30) \<and> jge daysUntilExpiry (Num 0) then
               [\<lparr>branchId = userId branch,
                 branchName = branchData.branchName branch,
                 userName = branchData.userName branch,
                 item = item,
                 alertType = Critical,
                 severity = High,
                 daysUntilExpiry = Some daysUntilExpiry,
                 stockLevel = Some stockOnHand\<rparr>]
             else if jgt daysUntilExpiry (Num 30) \<and> jle daysUntilExpiry (Num 180) then
               [\<lparr>branchId = userId branch,
                 branchName = branchData.branchName branch,
                 userName = branchData.userName branch,
                 item = item,
                 alertType = NearExpiry,
                 severity = Medium,
                 daysUntilExpiry = Some daysUntilExpiry,
                 stockLevel = Some stockOnHand\<rparr>]
             else []);
          stockPushed =
            (if stockOnHand > 0 \<and> isLowStock today item DEFAULT_REORDER_CONFIG then
               let stockStatus = getStockStatus today item DEFAULT_REORDER_CONFIG in
               [\<lparr>branchId = userId branch,
                 branchName = branchData.branchName branch,
                 userName = branchData.userName branch,
                 item = item,
                 alertType = LowStock,
                 severity = (if jlt (Num stockOnHand) (jmul (reorderPoint stockStatus) (Num 0.5))
                             then High else Medium),
                 daysUntilExpiry = None,
                 stockLevel = Some stockOnHand\<rparr>]
             else [])
      in expiryPushed @ stockPushed)"

fun severityOrder :: "severity \<Rightarrow> int" where
  "severityOrder High = 0"
| "severityOrder Medium = 1"
| "severityOrder Low = 2"

fun typeOrder :: "alertType \<Rightarrow> int" where
  "typeOrder Expired = 0"
| "typeOrder Critical = 1"
| "typeOrder LowStock = 2"
| "typeOrder NearExpiry = 3"

text \<open>The comparator passed to \<open>alerts.sort\<close>.\<close>

definition compareAlerts :: "branchAlert \<Rightarrow> branchAlert \<Rightarrow> int" where
  "compareAlerts a b =
     (if severityOrder (severity a) \<noteq> severityOrder (severity b)
      then severityOrder (severity a) - severityOrder (severity b)
      else typeOrder (alertType a) - typeOrder (alertType b))"

text \<open>
  \<open>Array.prototype.sort(compareFn)\<close> is a builtin of the host, which ECMAScript (since
  the 2019 edition) requires to be stable. It is modelled as insertion sort: an element
  is placed before the first element of the sorted rest that does not compare less than it,
  and the elements are inserted from the last to the first.
\<close>

fun insertBy :: "('a \<Rightarrow> 'a \<Rightarrow> int) \<Rightarrow> 'a \<Rightarrow> 'a list \<Rightarrow> 'a list" where
  "insertBy compareFn x [] = [x]"
| "insertBy compareFn x (y # ys) =
     (if compareFn x y \<le> 0 then x # y # ys else y # insertBy compareFn x ys)"

definition arraySort :: "('a \<Rightarrow> 'a \<Rightarrow> int) \<Rightarrow> 'a list \<Rightarrow> 'a list" where
  "arraySort compareFn xs = foldr (insertBy compareFn) xs []"

text \<open>
  \<open>generateBranchAlerts\<close>: the two nested \<open>forEach\<close> loops push the alerts of every item
  of every branch onto one array, in order, and the array is sorted.
\<close>

definition generateBranchAlerts :: "int \<Rightarrow> int \<Rightarrow> branchData list \<Rightarrow> branchAlert list" where
  "generateBranchAlerts now today branchData =
     arraySort compareAlerts
       (concat (map (\<lambda>branch. concat (map (itemAlerts now today branch) (inventory branch)))
                    branchData))"

section \<open>Sample data\<close>

text \<open>
  A batch received at the epoch and expiring 375 days later, and two branches. The
  examples read the clock at day 10 (\<open>864000000\<close> ms) unless they say otherwise.
\<close>

definition sampleBatch :: batch where
  "sampleBatch =
     \<lparr>id = ''b-001'', drugName = ''Amoxicillin'', program = ''General'', dosage = ''500mg'',
      unit = ''capsule'', batchNumber = ''LOT-1'', beginningInventory = 100, quantityReceived = 0,
      dateReceived = Date 0, unitCost = 2, quantityDispensed = 0,
      expirationDate = Date 32400000000, remarks = '''', branchId = None\<rparr>"

definition sampleBranch :: branchData where
  "sampleBranch =
     \<lparr>userId = ''user-1'', userName = ''Ana'', branchName = ''Manila'', userRole = ''Staff'',
      inventory = []\<rparr>"

definition otherBranch :: branchData where
  "otherBranch =
     \<lparr>userId = ''user-2'', userName = ''Ben'', branchName = ''Cebu'', userRole = ''Staff'',
      inventory = []\<rparr>"

section \<open>Auxiliary facts\<close>

subsection \<open>Rounding\<close>

text \<open>
  The equations that evaluate \<open>roundDouble\<close> on a numeral.
\<close>

lemmas fl_eval = roundDouble_def roundPos_def roundHalfEven_def ilog2_def compute_floorlog Let_def


lemma floorlog2_bounds_real:
  assumes "0 < n"
  shows "0 < floorlog 2 n" and "(2::real) ^ (floorlog 2 n - 1) \<le> real n"
    and "real n + 1 \<le> 2 ^ floorlog 2 n"
proof -
  from floorlog_bounds [of n 2] assms
  have b: "2 ^ (floorlog 2 n - 1) \<le> n" "n < 2 ^ floorlog 2 n" by simp_all
  show "0 < floorlog 2 n"
  proof (rule ccontr)
    assume "\<not> 0 < floorlog 2 n"
    then have "floorlog 2 n = 0" by simp
    with b(2) assms show False by simp
  qed
  have "real (2 ^ (floorlog 2 n - 1)) \<le> real n" using b(1) by (rule of_nat_mono)
  then show "(2::real) ^ (floorlog 2 n - 1) \<le> real n" by simp
  from b(2) have "Suc n \<le> 2 ^ floorlog 2 n" by simp
  then have "real (Suc n) \<le> real (2 ^ floorlog 2 n)" by (rule of_nat_mono)
  then show "real n + 1 \<le> 2 ^ floorlog 2 n" by simp
qed

lemma ilog2_ge1:
  assumes "1 \<le> x"
  shows "2 powi ilog2 x \<le> x" and "x < 2 powi (ilog2 x + 1)"
proof -
  define n where "n = nat \<lfloor>x\<rfloor>"
  define k where "k = floorlog 2 n"
  have fl: "1 \<le> \<lfloor>x\<rfloor>" using assms by linarith
  then have n0: "0 < n" by (simp add: n_def)
  have rn: "real n = of_int \<lfloor>x\<rfloor>" using fl by (simp add: n_def)
  have n1: "real n \<le> x" unfolding rn by linarith
  have n2: "x < real n + 1" unfolding rn by linarith
  note b = floorlog2_bounds_real [OF n0, folded k_def]
  have e: "ilog2 x = int k - 1" using assms by (simp add: ilog2_def n_def k_def)
  have "ilog2 x = int (k - 1)" using b(1) e by simp
  then have p1: "(2::real) powi ilog2 x = 2 ^ (k - 1)" by (simp only: power_int_of_nat)
  have "ilog2 x + 1 = int k" using e by simp
  then have p2: "(2::real) powi (ilog2 x + 1) = 2 ^ k" by (simp only: power_int_of_nat)
  show "2 powi ilog2 x \<le> x" unfolding p1 using b(2) n1 by linarith
  show "x < 2 powi (ilog2 x + 1)" unfolding p2 using b(3) n2 by linarith
qed

lemma ilog2_lt1:
  assumes "0 < x" and "x < 1"
  shows "2 powi ilog2 x \<le> x" and "x < 2 powi (ilog2 x + 1)"
proof -
  define y where "y = 1 / x"
  define n where "n = nat (\<lceil>y\<rceil> - 1)"
  define k where "k = floorlog 2 n"
  have y: "1 < y" using assms by (simp add: y_def)
  then have c: "2 \<le> \<lceil>y\<rceil>" by linarith
  then have n0: "0 < n" by (simp add: n_def)
  have rn: "real n = of_int \<lceil>y\<rceil> - 1" using c by (simp add: n_def)
  have n1: "real n < y" unfolding rn by linarith
  have n2: "y \<le> real n + 1" unfolding rn by linarith
  note b = floorlog2_bounds_real [OF n0, folded k_def]
  have e: "ilog2 x = - int k" using assms by (simp add: ilog2_def n_def k_def y_def)
  have p1: "(2::real) powi ilog2 x = 1 / 2 ^ k"
    unfolding e by (simp only: power_int_minus_divide power_int_of_nat)
  have "ilog2 x + 1 = - int (k - 1)" using b(1) e by simp
  then have p2: "(2::real) powi (ilog2 x + 1) = 1 / 2 ^ (k - 1)"
    by (simp only: power_int_minus_divide power_int_of_nat)
  have lo: "(2::real) ^ (k - 1) < y" using b(2) n1 by linarith
  have hi: "y \<le> 2 ^ k" using b(3) n2 by linarith
  have x: "x = 1 / y" using assms by (simp add: y_def)
  have ypos: "0 < y" using y by linarith
  have "1 / 2 ^ k \<le> 1 / y" using hi ypos by (simp add: frac_le)
  then have "1 / 2 ^ k \<le> x" by (simp only: x [symmetric])
  then show "2 powi ilog2 x \<le> x" by (simp only: p1)
  have "1 / y < 1 / (2::real) ^ (k - 1)" using lo ypos
    by (simp add: frac_less2)
  then have "x < 1 / (2::real) ^ (k - 1)" by (simp only: x [symmetric])
  then show "x < 2 powi (ilog2 x + 1)" by (simp only: p2)
qed

lemma ilog2_bounds:
  assumes "0 < x"
  shows "2 powi ilog2 x \<le> x" and "x < 2 powi (ilog2 x + 1)"
  using ilog2_ge1 [of x] ilog2_lt1 [of x] assms by (cases "1 \<le> x"; simp)+


lemma roundHalfEven_of_int [simp]: "roundHalfEven (of_int n) = n"
  by (simp add: roundHalfEven_def)

lemma roundHalfEven_range:
  "\<lfloor>y\<rfloor> \<le> roundHalfEven y" "roundHalfEven y \<le> \<lfloor>y\<rfloor> + 1"
  by (simp_all add: roundHalfEven_def Let_def)

lemma roundHalfEven_mono:
  assumes "y \<le> z"
  shows "roundHalfEven y \<le> roundHalfEven z"
proof (cases "\<lfloor>y\<rfloor> = \<lfloor>z\<rfloor>")
  case True
  with assms have "y - of_int \<lfloor>y\<rfloor> \<le> z - of_int \<lfloor>z\<rfloor>" by simp
  with True show ?thesis by (auto simp add: roundHalfEven_def Let_def)
next
  case False
  from assms have "\<lfloor>y\<rfloor> \<le> \<lfloor>z\<rfloor>" by (rule floor_mono)
  with False have "\<lfloor>y\<rfloor> + 1 \<le> \<lfloor>z\<rfloor>" by simp
  with roundHalfEven_range(2) [of y] roundHalfEven_range(1) [of z] show ?thesis by linarith
qed

lemma roundHalfEven_ge: "of_int n \<le> y \<Longrightarrow> n \<le> roundHalfEven y"
  using roundHalfEven_mono [of "of_int n" y] by simp

lemma roundHalfEven_le: "y \<le> of_int n \<Longrightarrow> roundHalfEven y \<le> n"
  using roundHalfEven_mono [of y "of_int n"] by simp

lemma roundPos_powi:
  "roundPos x = of_int (roundHalfEven (x / 2 powi (ilog2 x - 52))) * 2 powi (ilog2 x - 52)"
proof (cases "ilog2 x \<le> 52")
  case True
  then have "(2::real) ^ nat (52 - ilog2 x) = 2 powi (52 - ilog2 x)"
    by (simp add: power_int_def)
  also have "\<dots> = 1 / 2 powi (ilog2 x - 52)"
    using power_int_minus_divide [of "2::real" "ilog2 x - 52"] by simp
  finally have p: "(2::real) ^ nat (52 - ilog2 x) = 1 / 2 powi (ilog2 x - 52)" .
  show ?thesis using True by (simp add: roundPos_def Let_def p)
next
  case False
  then have p: "(2::real) ^ nat (ilog2 x - 52) = 2 powi (ilog2 x - 52)"
    by (simp add: power_int_def)
  show ?thesis using False by (simp add: roundPos_def Let_def p)
qed

lemma scaled_range:
  assumes "0 < x"
  shows "2 ^ 52 \<le> x / 2 powi (ilog2 x - 52)" and "x / 2 powi (ilog2 x - 52) < 2 ^ 53"
proof -
  have u: "(0::real) < 2 powi (ilog2 x - 52)" by simp
  have a: "(2::real) powi ilog2 x = 2 ^ 52 * 2 powi (ilog2 x - 52)"
    using power_int_add [of "2::real" 52 "ilog2 x - 52"] by simp
  have b: "(2::real) powi (ilog2 x + 1) = 2 ^ 53 * 2 powi (ilog2 x - 52)"
    using power_int_add [of "2::real" 53 "ilog2 x - 52"] by (simp add: add.commute)
  from ilog2_bounds(1) [OF assms] have "2 ^ 52 * 2 powi (ilog2 x - 52) \<le> x" by (simp only: a)
  then show "2 ^ 52 \<le> x / 2 powi (ilog2 x - 52)" using u by (simp only: pos_le_divide_eq)
  from ilog2_bounds(2) [OF assms] have "x < 2 ^ 53 * 2 powi (ilog2 x - 52)" by (simp only: b)
  then show "x / 2 powi (ilog2 x - 52) < 2 ^ 53" using u by (simp only: pos_divide_less_eq)
qed

lemma roundPos_bounds:
  assumes "0 < x"
  shows "2 powi ilog2 x \<le> roundPos x" and "roundPos x \<le> 2 powi (ilog2 x + 1)"
proof -
  have u: "(0::real) < 2 powi (ilog2 x - 52)" by simp
  have a: "(2::real) powi ilog2 x = 2 ^ 52 * 2 powi (ilog2 x - 52)"
    using power_int_add [of "2::real" 52 "ilog2 x - 52"] by simp
  have b: "(2::real) powi (ilog2 x + 1) = 2 ^ 53 * 2 powi (ilog2 x - 52)"
    using power_int_add [of "2::real" 53 "ilog2 x - 52"] by (simp add: add.commute)
  have "of_int (2 ^ 52) \<le> x / 2 powi (ilog2 x - 52)" using scaled_range(1) [OF assms] by simp
  then have "2 ^ 52 \<le> roundHalfEven (x / 2 powi (ilog2 x - 52))" by (rule roundHalfEven_ge)
  then have "(2::real) ^ 52 \<le> of_int (roundHalfEven (x / 2 powi (ilog2 x - 52)))"
    by (metis of_int_le_iff of_int_numeral of_int_power)
  then show "2 powi ilog2 x \<le> roundPos x"
    unfolding roundPos_powi a using u by (simp only: mult_le_cancel_right_pos)
  have "x / 2 powi (ilog2 x - 52) \<le> of_int (2 ^ 53)" using scaled_range(2) [OF assms] by simp
  then have "roundHalfEven (x / 2 powi (ilog2 x - 52)) \<le> 2 ^ 53" by (rule roundHalfEven_le)
  then have "of_int (roundHalfEven (x / 2 powi (ilog2 x - 52))) \<le> (2::real) ^ 53"
    by (metis of_int_le_iff of_int_numeral of_int_power)
  then show "roundPos x \<le> 2 powi (ilog2 x + 1)"
    unfolding roundPos_powi b using u by (simp only: mult_le_cancel_right_pos)
qed

lemma ilog2_mono:
  assumes "0 < x" and "x \<le> y"
  shows "ilog2 x \<le> ilog2 y"
proof (rule ccontr)
  assume "\<not> ilog2 x \<le> ilog2 y"
  then have "ilog2 y + 1 \<le> ilog2 x" by simp
  then have "(2::real) powi (ilog2 y + 1) \<le> 2 powi ilog2 x"
    by (intro power_int_increasing) simp_all
  moreover have "0 < y" using assms by linarith
  ultimately show False
    using ilog2_bounds(2) [of y] ilog2_bounds(1) [OF assms(1)] assms(2) by linarith
qed

lemma roundPos_mono:
  assumes "0 < x" and "x \<le> y"
  shows "roundPos x \<le> roundPos y"
proof (cases "ilog2 x = ilog2 y")
  case True
  have u: "(0::real) < 2 powi (ilog2 y - 52)" by simp
  from assms(2) have "x / 2 powi (ilog2 y - 52) \<le> y / 2 powi (ilog2 y - 52)"
    by (rule divide_right_mono) simp
  then have "roundHalfEven (x / 2 powi (ilog2 y - 52)) \<le> roundHalfEven (y / 2 powi (ilog2 y - 52))"
    by (rule roundHalfEven_mono)
  then have "(of_int (roundHalfEven (x / 2 powi (ilog2 y - 52))) :: real)
               \<le> of_int (roundHalfEven (y / 2 powi (ilog2 y - 52)))" by simp
  then show ?thesis unfolding roundPos_powi True using u
    by (simp only: mult_le_cancel_right_pos)
next
  case False
  have y: "0 < y" using assms by linarith
  from False ilog2_mono [OF assms] have "ilog2 x + 1 \<le> ilog2 y" by simp
  then have "(2::real) powi (ilog2 x + 1) \<le> 2 powi ilog2 y"
    by (intro power_int_increasing) simp_all
  with roundPos_bounds(2) [OF assms(1)] roundPos_bounds(1) [OF y] show ?thesis by linarith
qed

lemma roundPos_pos: "0 < x \<Longrightarrow> 0 < roundPos x"
  using roundPos_bounds(1) [of x] zero_less_power_int [of "2::real" "ilog2 x"] by linarith

lemma roundDouble_zero [simp]: "roundDouble 0 = 0"
  by (simp add: roundDouble_def)

lemma roundDouble_pos: "0 < x \<Longrightarrow> 0 < roundDouble x"
  by (simp add: roundDouble_def roundPos_pos)

lemma roundDouble_neg: "x < 0 \<Longrightarrow> roundDouble x < 0"
  by (simp add: roundDouble_def roundPos_pos)

lemma roundDouble_nonneg: "0 \<le> x \<Longrightarrow> 0 \<le> roundDouble x"
  using roundDouble_pos [of x] by (cases "x = 0") (simp_all add: less_eq_real_def)

lemma roundDouble_minus: "roundDouble (- x) = - roundDouble x"
  by (simp add: roundDouble_def)

lemma roundDouble_mono:
  assumes "x \<le> y"
  shows "roundDouble x \<le> roundDouble y"
proof -
  consider "0 < x" | "x \<le> 0" "0 \<le> y" | "y < 0" using assms by linarith
  then show ?thesis
  proof cases
    case 1
    with assms have "0 < y" by linarith
    with 1 assms show ?thesis by (simp add: roundDouble_def roundPos_mono)
  next
    case 2
    have "roundDouble x \<le> 0"
      using 2(1) roundDouble_neg [of x] by (cases "x = 0") (simp_all add: less_eq_real_def)
    with roundDouble_nonneg [OF 2(2)] show ?thesis by linarith
  next
    case 3
    with assms have "x < 0" by linarith
    from 3 assms have "roundPos (- y) \<le> roundPos (- x)" by (intro roundPos_mono) simp_all
    with 3 \<open>x < 0\<close> show ?thesis by (simp add: roundDouble_def)
  qed
qed


lemma roundPos_dyadic:
  assumes "0 < m" and "m \<le> 2 ^ 53"
  shows "roundPos (of_int m * 2 powi i) = of_int m * 2 powi i"
proof -
  define x :: real where "x = of_int m * 2 powi i"
  define e where "e = ilog2 x"
  have xpos: "0 < x" using assms(1) by (simp add: x_def)
  have lo: "2 powi e \<le> x" unfolding e_def by (rule ilog2_bounds(1) [OF xpos])
  have "real_of_int m \<le> 2 ^ 53" using assms(2) by (metis of_int_le_iff of_int_numeral of_int_power)
  then have "x \<le> 2 ^ 53 * 2 powi i" unfolding x_def by (intro mult_right_mono) simp_all
  also have "\<dots> = 2 powi (53 + i)" using power_int_add [of "2::real" 53 i] by simp
  finally have hi: "x \<le> 2 powi (53 + i)" .
  have e_le: "e \<le> 53 + i"
  proof (rule ccontr)
    assume "\<not> e \<le> 53 + i"
    then have "(2::real) powi (53 + i) < 2 powi e" by (intro power_int_strict_increasing) simp_all
    with lo hi show False by linarith
  qed
  have scale: "x / 2 powi (e - 52) = of_int m * 2 powi (i - e + 52)"
    unfolding x_def using power_int_diff [of "2::real" i "e - 52"] by (simp add: algebra_simps)
  have unscale: "2 powi (i - e + 52) * 2 powi (e - 52) = (2::real) powi i"
    using power_int_add [of "2::real" "i - e + 52" "e - 52"] by simp
  show ?thesis
  proof (cases "e \<le> 52 + i")
    case True
    then have "(2::real) powi (i - e + 52) = 2 ^ nat (i - e + 52)" by (simp add: power_int_def)
    then have "x / 2 powi (e - 52) = of_int (m * 2 ^ nat (i - e + 52))" by (simp add: scale)
    then have "roundHalfEven (x / 2 powi (e - 52)) = m * 2 ^ nat (i - e + 52)"
      by (simp only: roundHalfEven_of_int)
    then have "roundPos x = of_int (m * 2 ^ nat (i - e + 52)) * 2 powi (e - 52)"
      by (simp only: roundPos_powi e_def [symmetric])
    also have "\<dots> = of_int m * (2 powi (i - e + 52) * 2 powi (e - 52))"
      using True by (simp add: power_int_def)
    also have "\<dots> = x" by (simp only: unscale x_def)
    finally show ?thesis by (simp only: x_def)
  next
    case False
    with e_le have e: "e = 53 + i" by simp
    have "(2::real) powi e = 2 ^ 53 * 2 powi i" unfolding e using power_int_add [of "2::real" 53 i] by simp
    with lo have "2 ^ 53 * 2 powi i \<le> of_int m * (2::real) powi i" by (simp add: x_def)
    then have "(2::real) ^ 53 \<le> of_int m" by (simp only: mult_le_cancel_right_pos zero_less_power_int zero_less_numeral)
    then have "2 ^ 53 \<le> m" by (metis of_int_le_iff of_int_numeral of_int_power)
    with assms(2) have m: "m = 2 ^ 53" by simp
    have xe: "x = 2 powi e"
      unfolding x_def m e using power_int_add [of "2::real" 53 i] by simp
    have "x / 2 powi (e - 52) = 2 powi 52"
      unfolding xe using power_int_diff [of "2::real" e "e - 52"] by simp
    then have "x / 2 powi (e - 52) = of_int (2 ^ 52)" by simp
    then have "roundHalfEven (x / 2 powi (e - 52)) = 2 ^ 52" by (simp only: roundHalfEven_of_int)
    then have "roundPos x = of_int (2 ^ 52) * 2 powi (e - 52)"
      by (simp only: roundPos_powi e_def [symmetric])
    also have "\<dots> = 2 powi e" using power_int_add [of "2::real" 52 "e - 52"] by simp
    finally show ?thesis using xe by (simp only: x_def)
  qed
qed

lemma roundDouble_dyadic:
  assumes "\<bar>m\<bar> \<le> 2 ^ 53"
  shows "roundDouble (of_int m * 2 powi i) = of_int m * 2 powi i"
proof -
  consider "m = 0" | "0 < m" | "m < 0" by linarith
  then show ?thesis
  proof cases
    case 1
    then show ?thesis by simp
  next
    case 2
    with assms have "m \<le> 2 ^ 53" by simp
    from roundPos_dyadic [OF 2 this, of i] 2 show ?thesis
      by (simp add: roundDouble_def)
  next
    case 3
    then have p: "0 < - m" by simp
    from assms 3 have q: "- m \<le> 2 ^ 53" by simp
    have neg: "real_of_int m * 2 powi i < 0" using 3 by (simp add: mult_neg_pos)
    then have "real_of_int m * 2 powi i \<noteq> 0" "\<not> 0 < real_of_int m * 2 powi i" by linarith+
    then have "roundDouble (of_int m * 2 powi i) = - roundPos (- (of_int m * 2 powi i))"
      by (simp only: roundDouble_def if_False)
    also have "\<dots> = - roundPos (of_int (- m) * 2 powi i)" by simp
    also have "\<dots> = - (of_int (- m) * 2 powi i)" by (simp only: roundPos_dyadic [OF p q])
    finally show ?thesis by simp
  qed
qed

lemma roundDouble_of_int:
  "\<bar>n\<bar> \<le> 2 ^ 53 \<Longrightarrow> roundDouble (of_int n) = of_int n"
  using roundDouble_dyadic [of n 0] by simp

lemma floor_roundDouble_divide:
  fixes x c :: int
  assumes "0 < c" and "c \<le> 2 ^ 27" and "\<bar>x\<bar> < 2 ^ 26 * c"
  shows "\<lfloor>roundDouble (of_int x / of_int c)\<rfloor> = \<lfloor>(of_int x :: real) / of_int c\<rfloor>"
proof -
  define k where "k = x div c"
  have fl: "\<lfloor>(of_int x :: real) / of_int c\<rfloor> = k" by (simp add: k_def floor_divide_of_int_eq)
  have dm: "x = k * c + x mod c" by (simp add: k_def)
  have md: "0 \<le> x mod c" "x mod c < c" using assms(1) by simp_all
  have kc: "k * c \<le> x" "x + 1 \<le> (k + 1) * c"
    using dm md by (simp_all add: algebra_simps)
  have cpos: "(0::real) < of_int c" using assms(1) by simp
  have k_hi: "k < 2 ^ 26"
  proof (rule ccontr)
    assume "\<not> k < 2 ^ 26"
    then have "2 ^ 26 * c \<le> k * c" using assms(1) by (intro mult_right_mono) simp_all
    with kc(1) assms(3) show False by linarith
  qed
  have k_lo: "- (2 ^ 26) \<le> k"
  proof (rule ccontr)
    assume "\<not> - (2 ^ 26) \<le> k"
    then have "k + 1 \<le> - (2 ^ 26)" by simp
    then have "(k + 1) * c \<le> - (2 ^ 26) * c" using assms(1) by (intro mult_right_mono) simp_all
    with kc(2) assms(3) show False by linarith
  qed
  have rk: "roundDouble (of_int k) = of_int k"
    using k_hi k_lo by (intro roundDouble_of_int) simp
  have "real_of_int (k * c) \<le> of_int x" using kc(1) by (simp only: of_int_le_iff)
  then have "of_int k \<le> (of_int x :: real) / of_int c"
    using cpos by (simp add: pos_le_divide_eq)
  then have "roundDouble (of_int k) \<le> roundDouble (of_int x / of_int c)" by (rule roundDouble_mono)
  then have lower: "of_int k \<le> roundDouble (of_int x / of_int c)" by (simp only: rk)
  define z :: real where "z = of_int ((k + 1) * 2 ^ 27 - 1) * 2 powi (- 27)"
  have zval: "z = of_int (k + 1) - 1 / 2 ^ 27"
    by (simp add: z_def power_int_minus_divide algebra_simps)
  have "\<bar>(k + 1) * 2 ^ 27 - 1\<bar> \<le> 2 ^ 53" using k_hi k_lo by simp
  then have rz: "roundDouble z = z" unfolding z_def by (rule roundDouble_dyadic)
  have "real_of_int (x + 1) \<le> of_int ((k + 1) * c)" using kc(2) by (simp only: of_int_le_iff)
  then have "(of_int x :: real) / of_int c \<le> of_int (k + 1) - 1 / of_int c"
    using cpos by (simp add: field_simps)
  moreover have "1 / (2::real) ^ 27 \<le> 1 / of_int c"
  proof -
    have "real_of_int c \<le> 2 ^ 27" using assms(2) by (metis of_int_le_iff of_int_numeral of_int_power)
    with cpos show ?thesis by (simp add: frac_le)
  qed
  ultimately have "(of_int x :: real) / of_int c \<le> z" unfolding zval by linarith
  then have "roundDouble (of_int x / of_int c) \<le> roundDouble z" by (rule roundDouble_mono)
  then have "roundDouble (of_int x / of_int c) \<le> z" by (simp only: rz)
  then have upper: "roundDouble (of_int x / of_int c) < of_int k + 1" unfolding zval by simp
  from lower upper have "\<lfloor>roundDouble (of_int x / of_int c)\<rfloor> = k" by (simp add: floor_unique)
  then show ?thesis by (simp only: fl)
qed

subsection \<open>Whole days\<close>

lemma wholeDays_Date:
  "wholeDays (Date a) (Date b)
     = Num (of_int \<lfloor>roundDouble (roundDouble (of_int a - of_int b) / 86400000)\<rfloor>)"
  by (simp add: wholeDays_def)

lemma wholeDays_Invalid [simp]:
  "wholeDays InvalidDate d = NaN" "wholeDays d InvalidDate = NaN"
  by (cases d; simp add: wholeDays_def)+

text \<open>
  For two time values less than \<open>2^26\<close> days apart (some 183 000 years) the rounding of
  the difference and of the quotient does not change the floor.
\<close>

lemma wholeDays_exact:
  fixes a b :: int
  assumes "\<bar>a - b\<bar> < 2 ^ 26 * 86400000"
  shows "\<lfloor>roundDouble (roundDouble (of_int a - of_int b) / 86400000)\<rfloor>
           = \<lfloor>(of_int a - of_int b :: real) / 86400000\<rfloor>"
proof -
  have "\<bar>a - b\<bar> \<le> 2 ^ 53" using assms by simp
  then have "roundDouble (of_int (a - b)) = of_int (a - b)" by (rule roundDouble_of_int)
  then have d: "roundDouble (of_int a - of_int b) = of_int (a - b)" by simp
  have "\<lfloor>roundDouble (of_int (a - b) / of_int (86400000::int))\<rfloor>
          = \<lfloor>(of_int (a - b) :: real) / of_int (86400000::int)\<rfloor>"
    using assms by (intro floor_roundDouble_divide) simp_all
  then show ?thesis unfolding d by simp
qed

subsection \<open>Usage and reorder point\<close>

lemma usage_no_dispensed:
  "quantityDispensed b = 0 \<Longrightarrow> calculateAverageDailyUsage today b None = Num 0"
  by (simp add: calculateAverageDailyUsage_def)


lemma usage_days:
  "quantityDispensed b \<noteq> 0 \<Longrightarrow> wholeDays (Date today) (dateReceived b) = Num d \<Longrightarrow>
   calculateAverageDailyUsage today b None =
     (if d \<le> 0 then Num 0 else Num (roundDouble (quantityDispensed b / d)))"
  by (simp add: calculateAverageDailyUsage_def)

lemma usage_valid_date:
  assumes "quantityDispensed b \<noteq> 0" and "dateReceived b = Date r"
    and "d = \<lfloor>roundDouble (roundDouble (of_int today - of_int r) / 86400000)\<rfloor>"
  shows "calculateAverageDailyUsage today b None =
     (if d \<le> 0 then Num 0 else Num (roundDouble (quantityDispensed b / of_int d)))"
proof -
  have "wholeDays (Date today) (dateReceived b) = Num (of_int d)"
    using assms(2,3) by (simp only: wholeDays_Date)
  from usage_days [OF assms(1) this] show ?thesis
    by (simp only: of_int_le_0_iff)
qed

lemma usage_number:
  assumes "quantityDispensed b = 0 \<or> dateReceived b \<noteq> InvalidDate"
  shows "\<exists>u. calculateAverageDailyUsage today b None = Num u"
proof (cases "quantityDispensed b = 0")
  case True
  then show ?thesis by (simp add: usage_no_dispensed)
next
  case False
  with assms obtain r where "dateReceived b = Date r"
    by (cases "dateReceived b") auto
  from usage_valid_date [OF False this refl] show ?thesis
    by (metis (full_types))
qed


lemma reorderPoint_of_usage:
  "calculateAverageDailyUsage today b None = Num u \<Longrightarrow>
   calculateReorderPoint today b c =
     Num (if u = 0 then minimumThreshold c
          else max (of_int \<lceil>roundDouble (roundDouble (u * leadTimeDays c)
                      + roundDouble (roundDouble (u * leadTimeDays c) * safetyStockPercentage c))\<rceil>)
                   (minimumThreshold c))"
  by (simp add: calculateReorderPoint_def)

lemma reorderPoint_of_NaN:
  "calculateAverageDailyUsage today b None = NaN \<Longrightarrow> calculateReorderPoint today b c = NaN"
  by (simp add: calculateReorderPoint_def)


text \<open>
  Whenever the usage is a number, which it is when nothing was dispensed or the date of
  receipt parses, the reorder point is a number and at least the minimum threshold.
\<close>

lemma reorderPoint_floor:
  assumes "quantityDispensed b = 0 \<or> dateReceived b \<noteq> InvalidDate"
  shows "jge (calculateReorderPoint today b c) (Num (minimumThreshold c))"
proof -
  from usage_number [OF assms] obtain u where u: "calculateAverageDailyUsage today b None = Num u"
    by blast
  from reorderPoint_of_usage [OF u] show ?thesis by simp
qed


subsection \<open>The sort\<close>

lemma arraySort_Nil [simp]: "arraySort cmp [] = []"
  by (simp add: arraySort_def)

lemma arraySort_Cons [simp]: "arraySort cmp (x # xs) = insertBy cmp x (arraySort cmp xs)"
  by (simp add: arraySort_def)

lemma set_insertBy [simp]: "set (insertBy cmp x ys) = insert x (set ys)"
  by (induction ys) auto

lemma mset_insertBy [simp]: "mset (insertBy cmp x ys) = add_mset x (mset ys)"
  by (induction ys) auto

lemma mset_arraySort: "mset (arraySort cmp xs) = mset xs"
  by (induction xs) auto

lemma set_arraySort: "set (arraySort cmp xs) = set xs"
  by (induction xs) auto

lemma mset_filter_arraySort: "mset (filter P (arraySort cmp xs)) = mset (filter P xs)"
  by (simp only: mset_filter mset_arraySort)

lemma sorted_insertBy:
  assumes total: "\<And>a b. cmp a b \<le> 0 \<or> cmp b a \<le> 0"
    and trans: "\<And>a b c. cmp a b \<le> 0 \<Longrightarrow> cmp b c \<le> 0 \<Longrightarrow> cmp a c \<le> 0"
    and "sorted_wrt (\<lambda>a b. cmp a b \<le> 0) ys"
  shows "sorted_wrt (\<lambda>a b. cmp a b \<le> (0::int)) (insertBy cmp x ys)"
  using assms(3)
proof (induction ys)
  case Nil
  then show ?case by simp
next
  case (Cons y ys)
  show ?case
  proof (cases "cmp x y \<le> 0")
    case True
    with Cons.prems show ?thesis using trans by auto
  next
    case False
    with total have "cmp y x \<le> 0" by blast
    with False Cons show ?thesis by auto
  qed
qed

lemma sorted_arraySort:
  assumes total: "\<And>a b. cmp a b \<le> 0 \<or> cmp b a \<le> 0"
    and trans: "\<And>a b c. cmp a b \<le> 0 \<Longrightarrow> cmp b c \<le> 0 \<Longrightarrow> cmp a c \<le> 0"
  shows "sorted_wrt (\<lambda>a b. cmp a b \<le> (0::int)) (arraySort cmp xs)"
proof (induction xs)
  case Nil
  then show ?case by simp
next
  case (Cons x xs)
  then show ?case
    using sorted_insertBy [of cmp "arraySort cmp xs" x, OF total trans] by simp
qed

text \<open>
  Stability: elements that the comparator does not separate keep their input order.
\<close>

lemma filter_insertBy:
  assumes "\<And>y. P x \<Longrightarrow> P y \<Longrightarrow> cmp x y \<le> (0::int)"
  shows "filter P (insertBy cmp x ys) = (if P x then x # filter P ys else filter P ys)"
  using assms by (induction ys) auto

lemma filter_arraySort:
  assumes "\<And>x y. P x \<Longrightarrow> P y \<Longrightarrow> cmp x y \<le> (0::int)"
  shows "filter P (arraySort cmp xs) = filter P xs"
proof (induction xs)
  case Nil
  then show ?case by simp
next
  case (Cons x xs)
  have "filter P (insertBy cmp x (arraySort cmp xs))
          = (if P x then x # filter P (arraySort cmp xs) else filter P (arraySort cmp xs))"
    by (rule filter_insertBy) (rule assms)
  with Cons show ?case by simp
qed

lemma compareAlerts_le:
  "compareAlerts a b \<le> 0 \<longleftrightarrow>
     severityOrder (severity a) < severityOrder (severity b) \<or>
     (severityOrder (severity a) = severityOrder (severity b) \<and>
      typeOrder (alertType a) \<le> typeOrder (alertType b))"
  by (auto simp add: compareAlerts_def)

lemma compareAlerts_total: "compareAlerts a b \<le> 0 \<or> compareAlerts b a \<le> 0"
  unfolding compareAlerts_le by linarith

lemma compareAlerts_trans:
  "compareAlerts a b \<le> 0 \<Longrightarrow> compareAlerts b c \<le> 0 \<Longrightarrow> compareAlerts a c \<le> 0"
  unfolding compareAlerts_le by linarith

subsection \<open>The alerts of one item and of all branches\<close>

lemma itemAlerts_expiry_kinds:
  "map (\<lambda>a. (alertType a, severity a))
       (filter (\<lambda>a. alertType a \<in> {Expired, Critical, NearExpiry}) (itemAlerts now today branch b))
   = (case wholeDays (expirationDate b) (Date now) of
        NaN \<Rightarrow> []
      | Num d \<Rightarrow>
          if d < 0 then [(Expired, High)]
          else if d \<le> 30 then [(Critical, High)]
          else if d \<le> 180 then [(NearExpiry, Medium)]
          else [])"
  by (cases "wholeDays (expirationDate b) (Date now)") (simp_all add: itemAlerts_def Let_def)

lemma itemAlerts_expiry_invalid:
  "expirationDate b = InvalidDate \<Longrightarrow>
   filter (\<lambda>a. alertType a \<in> {Expired, Critical, NearExpiry}) (itemAlerts now today branch b) = []"
  by (simp add: itemAlerts_def Let_def)

lemma itemAlerts_expiry_valid:
  assumes "expirationDate b = Date e"
    and "d = \<lfloor>roundDouble (roundDouble (of_int e - of_int now) / 86400000)\<rfloor>"
  shows "filter (\<lambda>a. alertType a \<in> {Expired, Critical, NearExpiry}) (itemAlerts now today branch b)
   = (if d < 0 then
        [\<lparr>branchId = userId branch, branchName = branchData.branchName branch,
          userName = branchData.userName branch, item = b, alertType = Expired,
          severity = High, daysUntilExpiry = Some (Num (of_int d)),
          stockLevel = Some (roundDouble (roundDouble (beginningInventory b + quantityReceived b) - quantityDispensed b))\<rparr>]
      else if 0 \<le> d \<and> d \<le> 30 then
        [\<lparr>branchId = userId branch, branchName = branchData.branchName branch,
          userName = branchData.userName branch, item = b, alertType = Critical,
          severity = High, daysUntilExpiry = Some (Num (of_int d)),
          stockLevel = Some (roundDouble (roundDouble (beginningInventory b + quantityReceived b) - quantityDispensed b))\<rparr>]
      else if 31 \<le> d \<and> d \<le> 180 then
        [\<lparr>branchId = userId branch, branchName = branchData.branchName branch,
          userName = branchData.userName branch, item = b, alertType = NearExpiry,
          severity = Medium, daysUntilExpiry = Some (Num (of_int d)),
          stockLevel = Some (roundDouble (roundDouble (beginningInventory b + quantityReceived b) - quantityDispensed b))\<rparr>]
      else [])"
proof -
  have wd: "wholeDays (expirationDate b) (Date now) = Num (of_int d)"
    using assms by (simp only: wholeDays_Date)
  show ?thesis
    by (auto simp add: itemAlerts_def Let_def wd)
qed

lemma itemAlerts_stock:
  "filter (\<lambda>a. alertType a = LowStock) (itemAlerts now today branch b)
   = (if roundDouble (roundDouble (beginningInventory b + quantityReceived b) - quantityDispensed b) > 0 \<and>
         jle (Num (roundDouble (roundDouble (beginningInventory b + quantityReceived b) - quantityDispensed b)))
             (calculateReorderPoint today b DEFAULT_REORDER_CONFIG)
      then [\<lparr>branchId = userId branch, branchName = branchData.branchName branch,
              userName = branchData.userName branch, item = b, alertType = LowStock,
              severity =
                (if jlt (Num (roundDouble (roundDouble (beginningInventory b + quantityReceived b) - quantityDispensed b)))
                        (jmul (calculateReorderPoint today b DEFAULT_REORDER_CONFIG) (Num 0.5))
                 then High else Medium),
              daysUntilExpiry = None,
              stockLevel = Some (roundDouble (roundDouble (beginningInventory b + quantityReceived b) - quantityDispensed b))\<rparr>]
      else [])"
  by (simp add: itemAlerts_def Let_def isLowStock_def getStockStatus_def)

lemma itemAlerts_item: "a \<in> set (itemAlerts now today branch b) \<Longrightarrow> item a = b"
  by (auto simp add: itemAlerts_def Let_def split: if_splits)

lemma itemAlerts_invalid_expiry:
  "expirationDate b = InvalidDate \<Longrightarrow> a \<in> set (itemAlerts now today branch b) \<Longrightarrow>
   alertType a = LowStock"
  by (auto simp add: itemAlerts_def Let_def split: if_splits)

lemma generateBranchAlerts_set:
  "a \<in> set (generateBranchAlerts now today branches) \<longleftrightarrow>
     (\<exists>branch \<in> set branches. \<exists>b \<in> set (inventory branch). a \<in> set (itemAlerts now today branch b))"
  by (auto simp add: generateBranchAlerts_def set_arraySort)

text \<open>
  The alerts of one kind in the output are, up to their order, the alerts of that kind of
  every item of every branch.
\<close>

lemma generateBranchAlerts_filter:
  "mset (filter P (generateBranchAlerts now today branches))
     = mset (concat (map (\<lambda>branch. concat (map (\<lambda>b. filter P (itemAlerts now today branch b))
                                                (inventory branch))) branches))"
proof -
  have "filter P (concat (map (\<lambda>branch. concat (map (itemAlerts now today branch) (inventory branch)))
                              branches))
          = concat (map (\<lambda>branch. concat (map (\<lambda>b. filter P (itemAlerts now today branch b))
                                                (inventory branch))) branches)"
    by (simp add: filter_concat comp_def)
  then show ?thesis
    by (simp only: generateBranchAlerts_def mset_filter_arraySort)
qed

text \<open>The equations that evaluate the engine on concrete data.\<close>

lemmas engine_eval = calculateAverageDailyUsage_def calculateReorderPoint_def isLowStock_def
  getStockStatus_def calculateReorderQuantity_def itemAlerts_def generateBranchAlerts_def
  compareAlerts_def wholeDays_def DEFAULT_REORDER_CONFIG_def sampleBatch_def sampleBranch_def
  otherBranch_def

section \<open>The claims\<close>

text \<open>
  C1. \<open>calculateReorderPoint\<close> is meant to return a number that is at least
  \<open>config.minimumThreshold\<close> for every batch; the source ends with
  \<open>Math.max(calculatedReorderPoint, config.minimumThreshold)\<close> under the comment
  "Ensure it meets minimum threshold". For a batch with dispensed units whose
  \<open>dateReceived\<close> does not parse it does not: the elapsed days are \<open>NaN\<close>, the guard
  \<open>days <= 0\<close> is false, the usage \<open>20 / NaN\<close> is \<open>NaN\<close>, \<open>Math.ceil\<close> and \<open>Math.max\<close>
  propagate it, and the result \<open>NaN\<close> is not \<open>>= 20\<close>. (When the usage is a number the floor
  holds, see \<open>reorderPoint_floor\<close>.)
\<close>

theorem calculateReorderPoint_invalid_dateReceived:
  "calculateAverageDailyUsage 864000000
      (sampleBatch\<lparr>quantityDispensed := 20, dateReceived := InvalidDate\<rparr>) None = NaN \<and>
   calculateReorderPoint 864000000 (sampleBatch\<lparr>quantityDispensed := 20, dateReceived := InvalidDate\<rparr>)
      DEFAULT_REORDER_CONFIG = NaN \<and>
   \<not> jge (calculateReorderPoint 864000000
            (sampleBatch\<lparr>quantityDispensed := 20, dateReceived := InvalidDate\<rparr>) DEFAULT_REORDER_CONFIG)
          (Num (minimumThreshold DEFAULT_REORDER_CONFIG))"
  by (simp add: sampleBatch_def calculateReorderPoint_def calculateAverageDailyUsage_def)

text \<open>
  C2. For every batch and configuration, in the result of \<open>getStockStatus\<close>:
  \<open>currentStock\<close> is \<open>beginningInventory + quantityReceived - quantityDispensed\<close>, in
  doubles;
  \<open>isOutOfStock\<close> holds exactly when \<open>currentStock\<close> is 0; \<open>isLowStock\<close> holds only when
  \<open>currentStock\<close> is positive and at most the reorder point; the two flags are never both
  set; stock at or below 0 is never low stock; negative stock is neither low nor out of
  stock.
\<close>

theorem getStockStatus_classification:
  "currentStock (getStockStatus today b c)
     = roundDouble (roundDouble (beginningInventory b + quantityReceived b) - quantityDispensed b) \<and>
   (isOutOfStock (getStockStatus today b c) \<longleftrightarrow> currentStock (getStockStatus today b c) = 0) \<and>
   (isLowStockField (getStockStatus today b c) \<longrightarrow>
      currentStock (getStockStatus today b c) > 0 \<and>
      jle (Num (currentStock (getStockStatus today b c))) (reorderPoint (getStockStatus today b c))) \<and>
   \<not> (isLowStockField (getStockStatus today b c) \<and> isOutOfStock (getStockStatus today b c)) \<and>
   (currentStock (getStockStatus today b c) \<le> 0 \<longrightarrow> \<not> isLowStockField (getStockStatus today b c)) \<and>
   (currentStock (getStockStatus today b c) < 0 \<longrightarrow>
      \<not> isLowStockField (getStockStatus today b c) \<and> \<not> isOutOfStock (getStockStatus today b c))"
  by (auto simp add: getStockStatus_def Let_def)

text \<open>
  Instances: a batch with 5 units is low stock, one with 0 units is out of stock and not
  low, one with \<open>5 - 20 = -15\<close> units is neither.
\<close>

theorem getStockStatus_classification_witness:
  "isLowStockField (getStockStatus 864000000 (sampleBatch\<lparr>beginningInventory := 5\<rparr>)
      DEFAULT_REORDER_CONFIG) \<and>
   currentStock (getStockStatus 864000000 (sampleBatch\<lparr>beginningInventory := 5\<rparr>)
      DEFAULT_REORDER_CONFIG) = 5 \<and>
   reorderPoint (getStockStatus 864000000 (sampleBatch\<lparr>beginningInventory := 5\<rparr>)
      DEFAULT_REORDER_CONFIG) = Num 20 \<and>
   currentStock (getStockStatus 864000000 (sampleBatch\<lparr>beginningInventory := 0\<rparr>)
      DEFAULT_REORDER_CONFIG) = 0 \<and>
   isOutOfStock (getStockStatus 864000000 (sampleBatch\<lparr>beginningInventory := 0\<rparr>)
      DEFAULT_REORDER_CONFIG) \<and>
   \<not> isLowStockField (getStockStatus 864000000 (sampleBatch\<lparr>beginningInventory := 0\<rparr>)
      DEFAULT_REORDER_CONFIG) \<and>
   currentStock (getStockStatus 864000000
      (sampleBatch\<lparr>beginningInventory := 5, quantityDispensed := 20\<rparr>) DEFAULT_REORDER_CONFIG) = - 15 \<and>
   \<not> isLowStockField (getStockStatus 864000000
      (sampleBatch\<lparr>beginningInventory := 5, quantityDispensed := 20\<rparr>) DEFAULT_REORDER_CONFIG) \<and>
   \<not> isOutOfStock (getStockStatus 864000000
      (sampleBatch\<lparr>beginningInventory := 5, quantityDispensed := 20\<rparr>) DEFAULT_REORDER_CONFIG)"
  using getStockStatus_classification
      [of 864000000 "sampleBatch\<lparr>beginningInventory := 5\<rparr>" DEFAULT_REORDER_CONFIG]
    getStockStatus_classification
      [of 864000000 "sampleBatch\<lparr>beginningInventory := 0\<rparr>" DEFAULT_REORDER_CONFIG]
    getStockStatus_classification
      [of 864000000 "sampleBatch\<lparr>beginningInventory := 5, quantityDispensed := 20\<rparr>"
        DEFAULT_REORDER_CONFIG]
  by (simp add: engine_eval fl_eval split del: if_split)

text \<open>
  C3. The expiry alerts in the output of the alert generator are, up to the order the sort
  gives them, one per item as follows, and no others. An item whose expiration date parses
  has \<open>daysUntilExpiry = floor((expirationDate - now) / one day)\<close>, computed in doubles;
  below 0 it gets one \<open>expired\<close> alert of severity \<open>high\<close>; from 0 to 30 one \<open>critical\<close>
  alert of severity \<open>high\<close>; from 31 to 180 one \<open>nearExpiry\<close> alert of severity \<open>medium\<close>;
  above 180 none. The rule does not look at the stock of the batch. For dates less than
  \<open>2^26\<close> days from the clock reading the computed floor is the exact one. No item gets
  more than one expiry alert.
\<close>

theorem expiry_alert_buckets:
  "mset (filter (\<lambda>a. alertType a \<in> {Expired, Critical, NearExpiry})
               (generateBranchAlerts now today branches))
     = mset (concat (map (\<lambda>branch. concat (map (\<lambda>item.
         case expirationDate item of
           InvalidDate \<Rightarrow> []
         | Date e \<Rightarrow>
             (let daysUntilExpiry =
                    \<lfloor>roundDouble (roundDouble (of_int e - of_int now) / (1000 * 60 * 60 * 24))\<rfloor>;
                  alert = (\<lambda>kind level.
                    \<lparr>branchId = userId branch,
                     branchName = branchData.branchName branch,
                     userName = branchData.userName branch,
                     item = item,
                     alertType = kind,
                     severity = level,
                     daysUntilExpiry = Some (Num (of_int daysUntilExpiry)),
                     stockLevel = Some (roundDouble
                       (roundDouble (beginningInventory item + quantityReceived item)
                          - quantityDispensed item))\<rparr>)
              in if daysUntilExpiry < 0 then [alert Expired High]
                 else if 0 \<le> daysUntilExpiry \<and> daysUntilExpiry \<le> 30 then [alert Critical High]
                 else if 31 \<le> daysUntilExpiry \<and> daysUntilExpiry \<le> 180
                   then [alert NearExpiry Medium]
                 else []))
         (inventory branch))) branches)) \<and>
   (\<bar>e' - now\<bar> < 2 ^ 26 * (1000 * 60 * 60 * 24) \<longrightarrow>
      \<lfloor>roundDouble (roundDouble (of_int e' - of_int now) / (1000 * 60 * 60 * 24))\<rfloor>
        = \<lfloor>(of_int e' - of_int now :: real) / (1000 * 60 * 60 * 24)\<rfloor>) \<and>
   length (filter (\<lambda>a. alertType a \<in> {Expired, Critical, NearExpiry})
                  (itemAlerts now today branch' b)) \<le> 1"
proof -
  have per: "filter (\<lambda>a. alertType a \<in> {Expired, Critical, NearExpiry})
                    (itemAlerts now today branch item)
     = (case expirationDate item of
           InvalidDate \<Rightarrow> []
         | Date e \<Rightarrow>
             (let daysUntilExpiry =
                    \<lfloor>roundDouble (roundDouble (of_int e - of_int now) / (1000 * 60 * 60 * 24))\<rfloor>;
                  alert = (\<lambda>kind level.
                    \<lparr>branchId = userId branch,
                     branchName = branchData.branchName branch,
                     userName = branchData.userName branch,
                     item = item,
                     alertType = kind,
                     severity = level,
                     daysUntilExpiry = Some (Num (of_int daysUntilExpiry)),
                     stockLevel = Some (roundDouble
                       (roundDouble (beginningInventory item + quantityReceived item)
                          - quantityDispensed item))\<rparr>)
              in if daysUntilExpiry < 0 then [alert Expired High]
                 else if 0 \<le> daysUntilExpiry \<and> daysUntilExpiry \<le> 30 then [alert Critical High]
                 else if 31 \<le> daysUntilExpiry \<and> daysUntilExpiry \<le> 180
                   then [alert NearExpiry Medium]
                 else []))" for branch item
  proof (cases "expirationDate item")
    case InvalidDate
    then show ?thesis
      by (simp only: jsdate.case itemAlerts_expiry_invalid [OF InvalidDate])
  next
    case (Date e)
    define d where
      "d = \<lfloor>roundDouble (roundDouble (of_int e - of_int now) / (1000 * 60 * 60 * 24))\<rfloor>"
    have "d = \<lfloor>roundDouble (roundDouble (of_int e - of_int now) / 86400000)\<rfloor>"
      by (simp add: d_def)
    from itemAlerts_expiry_valid [OF Date this] show ?thesis
      unfolding Date jsdate.case Let_def d_def [symmetric] .
  qed
  have buckets: "mset (filter (\<lambda>a. alertType a \<in> {Expired, Critical, NearExpiry})
               (generateBranchAlerts now today branches))
     = mset (concat (map (\<lambda>branch. concat (map (\<lambda>item.
         case expirationDate item of
           InvalidDate \<Rightarrow> []
         | Date e \<Rightarrow>
             (let daysUntilExpiry =
                    \<lfloor>roundDouble (roundDouble (of_int e - of_int now) / (1000 * 60 * 60 * 24))\<rfloor>;
                  alert = (\<lambda>kind level.
                    \<lparr>branchId = userId branch,
                     branchName = branchData.branchName branch,
                     userName = branchData.userName branch,
                     item = item,
                     alertType = kind,
                     severity = level,
                     daysUntilExpiry = Some (Num (of_int daysUntilExpiry)),
                     stockLevel = Some (roundDouble
                       (roundDouble (beginningInventory item + quantityReceived item)
                          - quantityDispensed item))\<rparr>)
              in if daysUntilExpiry < 0 then [alert Expired High]
                 else if 0 \<le> daysUntilExpiry \<and> daysUntilExpiry \<le> 30 then [alert Critical High]
                 else if 31 \<le> daysUntilExpiry \<and> daysUntilExpiry \<le> 180
                   then [alert NearExpiry Medium]
                 else []))
         (inventory branch))) branches))"
    unfolding generateBranchAlerts_filter per by (rule refl)
  have exact: "\<lfloor>roundDouble (roundDouble (of_int e' - of_int now) / (1000 * 60 * 60 * 24))\<rfloor>
        = \<lfloor>(of_int e' - of_int now :: real) / (1000 * 60 * 60 * 24)\<rfloor>"
    if "\<bar>e' - now\<bar> < 2 ^ 26 * (1000 * 60 * 60 * 24)"
    using wholeDays_exact [of e' now] that by simp
  have "length (map (\<lambda>a. (alertType a, severity a))
                  (filter (\<lambda>a. alertType a \<in> {Expired, Critical, NearExpiry})
                     (itemAlerts now today branch' b))) \<le> 1"
    unfolding itemAlerts_expiry_kinds by (simp split: jsnum.split)
  then have atmost: "length (filter (\<lambda>a. alertType a \<in> {Expired, Critical, NearExpiry})
                  (itemAlerts now today branch' b)) \<le> 1"
    by simp
  from buckets exact atmost show ?thesis by blast
qed

text \<open>
  An instance with two branches: items that expired 10 days ago, expire in 30, 31, 180 and
  181 days, and one with an unparseable date. The boundaries fall as stated, the last two
  items get no expiry alert, and the output lists high before medium.
\<close>

theorem expiry_alert_buckets_witness:
  "\<bar>3456000000 - 864000000 :: int\<bar> < 2 ^ 26 * (1000 * 60 * 60 * 24) \<and>
   \<lfloor>roundDouble (roundDouble (of_int 3456000000 - of_int 864000000) / (1000 * 60 * 60 * 24))\<rfloor>
     = (30 :: int) \<and>
   map (\<lambda>a. (branchId a, alertType a, severity a, daysUntilExpiry a))
     (filter (\<lambda>a. alertType a \<in> {Expired, Critical, NearExpiry})
        (generateBranchAlerts 864000000 864000000
           [sampleBranch\<lparr>inventory :=
              [sampleBatch\<lparr>expirationDate := Date 3542400000\<rparr>,
               sampleBatch\<lparr>expirationDate := Date 3456000000\<rparr>,
               sampleBatch\<lparr>expirationDate := Date 0\<rparr>]\<rparr>,
            otherBranch\<lparr>inventory :=
              [sampleBatch\<lparr>expirationDate := Date 16502400000\<rparr>,
               sampleBatch\<lparr>expirationDate := InvalidDate\<rparr>,
               sampleBatch\<lparr>expirationDate := Date 16416000000\<rparr>]\<rparr>]))
     = [(''user-1'', Expired, High, Some (Num (- 10))),
        (''user-1'', Critical, High, Some (Num 30)),
        (''user-1'', NearExpiry, Medium, Some (Num 31)),
        (''user-2'', NearExpiry, Medium, Some (Num 180))]"
  using expiry_alert_buckets [where now = 864000000 and today = 864000000 and e' = 3456000000
      and branches = "[sampleBranch\<lparr>inventory :=
              [sampleBatch\<lparr>expirationDate := Date 3542400000\<rparr>,
               sampleBatch\<lparr>expirationDate := Date 3456000000\<rparr>,
               sampleBatch\<lparr>expirationDate := Date 0\<rparr>]\<rparr>,
            otherBranch\<lparr>inventory :=
              [sampleBatch\<lparr>expirationDate := Date 16502400000\<rparr>,
               sampleBatch\<lparr>expirationDate := InvalidDate\<rparr>,
               sampleBatch\<lparr>expirationDate := Date 16416000000\<rparr>]\<rparr>]"]
  by (simp add: engine_eval fl_eval split del: if_split)

text \<open>
  C4. The \<open>lowStock\<close> alerts in the output of the alert generator are, up to the order the
  sort gives them, one for every item with \<open>currentStock > 0\<close> and
  \<open>currentStock <= reorderPoint\<close> (the stock in doubles, the reorder point under the
  default configuration), and
  no others; the severity is \<open>high\<close> when \<open>currentStock < reorderPoint * 0.5\<close> and \<open>medium\<close>
  otherwise. For a batch with \<open>beginningInventory\<close> 5, nothing received or dispensed,
  received 10 days ago and expiring 365 days from now, the usage is 0, the reorder point
  20, the current stock 5, and the generator emits exactly one alert: \<open>lowStock\<close> of
  severity \<open>high\<close>, and no expiry alert.
\<close>

theorem lowStock_alert_rule:
  "mset (filter (\<lambda>a. alertType a = LowStock) (generateBranchAlerts now today branches))
     = mset (concat (map (\<lambda>branch. concat (map (\<lambda>item.
         let currentStock = roundDouble (roundDouble (beginningInventory item + quantityReceived item)
                                           - quantityDispensed item);
             reorderPoint = calculateReorderPoint today item DEFAULT_REORDER_CONFIG
         in if currentStock > 0 \<and> jle (Num currentStock) reorderPoint
            then [\<lparr>branchId = userId branch,
                    branchName = branchData.branchName branch,
                    userName = branchData.userName branch,
                    item = item,
                    alertType = LowStock,
                    severity = (if jlt (Num currentStock) (jmul reorderPoint (Num 0.5))
                                then High else Medium),
                    daysUntilExpiry = None,
                    stockLevel = Some currentStock\<rparr>]
            else [])
         (inventory branch))) branches)) \<and>
   (let scenario = b'\<lparr>beginningInventory := 5, quantityReceived := 0, quantityDispensed := 0,
                       dateReceived := Date (today - 10 * (1000 * 60 * 60 * 24)),
                       expirationDate := Date (now + 365 * (1000 * 60 * 60 * 24))\<rparr>;
        alert = \<lparr>branchId = userId branch,
                 branchName = branchData.branchName branch,
                 userName = branchData.userName branch,
                 item = scenario,
                 alertType = LowStock,
                 severity = High,
                 daysUntilExpiry = None,
                 stockLevel = Some 5\<rparr>
    in calculateAverageDailyUsage today scenario None = Num 0 \<and>
       calculateReorderPoint today scenario DEFAULT_REORDER_CONFIG = Num 20 \<and>
       currentStock (getStockStatus today scenario DEFAULT_REORDER_CONFIG) = 5 \<and>
       itemAlerts now today branch scenario = [alert] \<and>
       generateBranchAlerts now today [branch\<lparr>inventory := [scenario]\<rparr>] = [alert])"
proof -
  have rule: "mset (filter (\<lambda>a. alertType a = LowStock) (generateBranchAlerts now today branches))
     = mset (concat (map (\<lambda>branch. concat (map (\<lambda>item.
         let currentStock = roundDouble (roundDouble (beginningInventory item + quantityReceived item)
                                           - quantityDispensed item);
             reorderPoint = calculateReorderPoint today item DEFAULT_REORDER_CONFIG
         in if currentStock > 0 \<and> jle (Num currentStock) reorderPoint
            then [\<lparr>branchId = userId branch,
                    branchName = branchData.branchName branch,
                    userName = branchData.userName branch,
                    item = item,
                    alertType = LowStock,
                    severity = (if jlt (Num currentStock) (jmul reorderPoint (Num 0.5))
                                then High else Medium),
                    daysUntilExpiry = None,
                    stockLevel = Some currentStock\<rparr>]
            else [])
         (inventory branch))) branches))"
    unfolding generateBranchAlerts_filter itemAlerts_stock Let_def by (rule refl)
  define scenario where
    "scenario = b'\<lparr>beginningInventory := 5, quantityReceived := 0, quantityDispensed := 0,
                     dateReceived := Date (today - 10 * (1000 * 60 * 60 * 24)),
                     expirationDate := Date (now + 365 * (1000 * 60 * 60 * 24))\<rparr>"
  have fields: "beginningInventory scenario = 5" "quantityReceived scenario = 0"
      "quantityDispensed scenario = 0"
    by (simp_all add: scenario_def)
  have usage: "calculateAverageDailyUsage today scenario None = Num 0"
    by (rule usage_no_dispensed) (rule fields)
  have rp: "calculateReorderPoint today scenario DEFAULT_REORDER_CONFIG = Num 20"
    using reorderPoint_of_usage [OF usage, of DEFAULT_REORDER_CONFIG]
    by (simp add: DEFAULT_REORDER_CONFIG_def)
  have r5: "roundDouble 5 = 5" by (simp add: fl_eval)
  have cs: "currentStock (getStockStatus today scenario DEFAULT_REORDER_CONFIG) = 5"
    by (simp add: getStockStatus_def Let_def fields r5)
  have r1: "roundDouble 31536000000 = 31536000000" by (simp add: fl_eval)
  have r2: "roundDouble 365 = 365" by (simp add: fl_eval)
  have r3: "roundDouble 10 = 10" by (simp add: fl_eval)
  have days: "wholeDays (expirationDate scenario) (Date now) = Num 365"
    by (simp add: wholeDays_def scenario_def r1 r2)
  have alerts: "itemAlerts now today br scenario
         = [\<lparr>branchId = userId br,
             branchName = branchData.branchName br,
             userName = branchData.userName br,
             item = scenario,
             alertType = LowStock,
             severity = High,
             daysUntilExpiry = None,
             stockLevel = Some 5\<rparr>]" for br
    by (simp add: itemAlerts_def Let_def days fields isLowStock_def getStockStatus_def rp r3 r5)
  have sorted: "generateBranchAlerts now today [branch\<lparr>inventory := [scenario]\<rparr>]
         = [\<lparr>branchId = userId branch,
             branchName = branchData.branchName branch,
             userName = branchData.userName branch,
             item = scenario,
             alertType = LowStock,
             severity = High,
             daysUntilExpiry = None,
             stockLevel = Some 5\<rparr>]"
    by (simp add: generateBranchAlerts_def alerts)
  from rule usage rp cs alerts [of branch] sorted show ?thesis
    unfolding scenario_def Let_def by blast
qed

text \<open>
  An instance with two branches, on day 13. The first branch holds the scenario's batch of
  5 units and a batch with 64 of 109 units left after 45 were dispensed: its usage is
  \<open>45 / 13\<close>, and the doubles make the reorder point
  \<open>ceil(63.00000000000001) = 64\<close>, so the batch is low stock, of severity medium. The
  second branch holds a batch of 100 units, which is not low, and one of 15.
\<close>

theorem lowStock_alert_rule_witness:
  "calculateReorderPoint 1123200000 (sampleBatch\<lparr>beginningInventory := 109, quantityDispensed := 45\<rparr>)
     DEFAULT_REORDER_CONFIG = Num 64 \<and>
   map (\<lambda>a. (branchId a, alertType a, severity a, stockLevel a))
     (generateBranchAlerts 1123200000 1123200000
        [sampleBranch\<lparr>inventory :=
           [sampleBatch\<lparr>beginningInventory := 109, quantityDispensed := 45\<rparr>,
            sampleBatch\<lparr>beginningInventory := 5, quantityReceived := 0, quantityDispensed := 0,
                         dateReceived := Date 259200000, expirationDate := Date 32659200000\<rparr>]\<rparr>,
         otherBranch\<lparr>inventory :=
           [sampleBatch, sampleBatch\<lparr>beginningInventory := 15\<rparr>]\<rparr>])
     = [(''user-1'', LowStock, High, Some 5),
        (''user-1'', LowStock, Medium, Some 64),
        (''user-2'', LowStock, Medium, Some 15)]"
  using lowStock_alert_rule [where now = 1123200000 and today = 1123200000 and b' = sampleBatch
      and branch = sampleBranch
      and branches = "[sampleBranch\<lparr>inventory :=
           [sampleBatch\<lparr>beginningInventory := 109, quantityDispensed := 45\<rparr>,
            sampleBatch\<lparr>beginningInventory := 5, quantityReceived := 0, quantityDispensed := 0,
                         dateReceived := Date 259200000, expirationDate := Date 32659200000\<rparr>]\<rparr>,
         otherBranch\<lparr>inventory :=
           [sampleBatch, sampleBatch\<lparr>beginningInventory := 15\<rparr>]\<rparr>]"]
  by (simp add: engine_eval fl_eval split del: if_split)

text \<open>
  C5. The alert list the generator returns is ordered by severity rank
  (\<open>high\<close> 0, \<open>medium\<close> 1, \<open>low\<close> 2) and, within one severity, by type rank
  (\<open>expired\<close> 0, \<open>critical\<close> 1, \<open>lowStock\<close> 2, \<open>nearExpiry\<close> 3); it holds the alerts of
  all items of all branches, each as often as it was pushed, and alerts of the same severity
  and type keep the order in which they were pushed. Four alerts of severities medium, high,
  high, low and types lowStock, expired, critical, nearExpiry are sorted into: the expired
  one, the critical one, the medium one, the low one.
\<close>

theorem generateBranchAlerts_sorted_stable:
  "severityOrder High = 0 \<and> severityOrder Medium = 1 \<and> severityOrder Low = 2 \<and>
   typeOrder Expired = 0 \<and> typeOrder Critical = 1 \<and> typeOrder LowStock = 2 \<and>
   typeOrder NearExpiry = 3 \<and>
   sorted_wrt (\<lambda>a b. severityOrder (severity a) < severityOrder (severity b) \<or>
                       (severityOrder (severity a) = severityOrder (severity b) \<and>
                        typeOrder (alertType a) \<le> typeOrder (alertType b)))
      (generateBranchAlerts now today branches) \<and>
   mset (generateBranchAlerts now today branches)
     = mset (concat (map (\<lambda>branch. concat (map (itemAlerts now today branch) (inventory branch)))
                         branches)) \<and>
   (\<forall>s t. filter (\<lambda>a. severity a = s \<and> alertType a = t) (generateBranchAlerts now today branches)
          = filter (\<lambda>a. severity a = s \<and> alertType a = t)
              (concat (map (\<lambda>branch. concat (map (itemAlerts now today branch) (inventory branch)))
                           branches))) \<and>
   arraySort compareAlerts
      [a1\<lparr>severity := Medium, alertType := LowStock\<rparr>,
       a2\<lparr>severity := High, alertType := Expired\<rparr>,
       a3\<lparr>severity := High, alertType := Critical\<rparr>,
       a4\<lparr>severity := Low, alertType := NearExpiry\<rparr>]
     = [a2\<lparr>severity := High, alertType := Expired\<rparr>,
        a3\<lparr>severity := High, alertType := Critical\<rparr>,
        a1\<lparr>severity := Medium, alertType := LowStock\<rparr>,
        a4\<lparr>severity := Low, alertType := NearExpiry\<rparr>]"
proof -
  have ranks: "severityOrder High = 0 \<and> severityOrder Medium = 1 \<and> severityOrder Low = 2 \<and>
     typeOrder Expired = 0 \<and> typeOrder Critical = 1 \<and> typeOrder LowStock = 2 \<and>
     typeOrder NearExpiry = 3"
    by simp
  have "sorted_wrt (\<lambda>a b. compareAlerts a b \<le> 0) (generateBranchAlerts now today branches)"
    unfolding generateBranchAlerts_def
    by (rule sorted_arraySort) (rule compareAlerts_total, rule compareAlerts_trans)
  then have sorted: "sorted_wrt (\<lambda>a b. severityOrder (severity a) < severityOrder (severity b) \<or>
                       (severityOrder (severity a) = severityOrder (severity b) \<and>
                        typeOrder (alertType a) \<le> typeOrder (alertType b)))
      (generateBranchAlerts now today branches)"
    by (simp only: compareAlerts_le)
  have perm: "mset (generateBranchAlerts now today branches)
     = mset (concat (map (\<lambda>branch. concat (map (itemAlerts now today branch) (inventory branch)))
                         branches))"
    by (simp only: generateBranchAlerts_def mset_arraySort)
  have stable: "filter (\<lambda>a. severity a = s \<and> alertType a = t) (generateBranchAlerts now today branches)
          = filter (\<lambda>a. severity a = s \<and> alertType a = t)
              (concat (map (\<lambda>branch. concat (map (itemAlerts now today branch) (inventory branch)))
                           branches))" for s t
    unfolding generateBranchAlerts_def
    by (rule filter_arraySort) (simp add: compareAlerts_def)
  have example: "arraySort compareAlerts
      [a1\<lparr>severity := Medium, alertType := LowStock\<rparr>,
       a2\<lparr>severity := High, alertType := Expired\<rparr>,
       a3\<lparr>severity := High, alertType := Critical\<rparr>,
       a4\<lparr>severity := Low, alertType := NearExpiry\<rparr>]
     = [a2\<lparr>severity := High, alertType := Expired\<rparr>,
        a3\<lparr>severity := High, alertType := Critical\<rparr>,
        a1\<lparr>severity := Medium, alertType := LowStock\<rparr>,
        a4\<lparr>severity := Low, alertType := NearExpiry\<rparr>]"
    by (simp add: compareAlerts_def)
  from ranks sorted perm stable example show ?thesis by blast
qed

text \<open>
  An instance that needs both keys and the stability. On day 10 the first branch holds a
  batch of 15 units that expires in 90 days (pushed: \<open>nearExpiry\<close> medium, then
  \<open>lowStock\<close> medium) and a batch that expires in 20 days (\<open>critical\<close> high); the second
  branch holds a batch that expired 10 days ago (\<open>expired\<close> high), a batch of 12 units
  (\<open>lowStock\<close> medium) and one that expires in 5 days (\<open>critical\<close> high). The output
  lists the expired alert, the two critical ones in the order they were pushed, the two
  \<open>lowStock\<close> ones in that order, and the \<open>nearExpiry\<close> one last.
\<close>

theorem generateBranchAlerts_sorted_stable_witness:
  "map (\<lambda>a. (branchId a, severity a, alertType a, stockLevel a))
     (generateBranchAlerts 864000000 864000000
        [sampleBranch\<lparr>inventory :=
           [sampleBatch\<lparr>beginningInventory := 15, expirationDate := Date 8640000000\<rparr>,
            sampleBatch\<lparr>expirationDate := Date 2592000000\<rparr>]\<rparr>,
         otherBranch\<lparr>inventory :=
           [sampleBatch\<lparr>expirationDate := Date 0\<rparr>,
            sampleBatch\<lparr>beginningInventory := 12\<rparr>,
            sampleBatch\<lparr>beginningInventory := 50, expirationDate := Date 1296000000\<rparr>]\<rparr>])
     = [(''user-2'', High, Expired, Some 100),
        (''user-1'', High, Critical, Some 100),
        (''user-2'', High, Critical, Some 50),
        (''user-1'', Medium, LowStock, Some 15),
        (''user-2'', Medium, LowStock, Some 12),
        (''user-1'', Medium, NearExpiry, Some 15)]"
  using generateBranchAlerts_sorted_stable [where now = 864000000 and today = 864000000
      and branches = "[sampleBranch\<lparr>inventory :=
           [sampleBatch\<lparr>beginningInventory := 15, expirationDate := Date 8640000000\<rparr>,
            sampleBatch\<lparr>expirationDate := Date 2592000000\<rparr>]\<rparr>,
         otherBranch\<lparr>inventory :=
           [sampleBatch\<lparr>expirationDate := Date 0\<rparr>,
            sampleBatch\<lparr>beginningInventory := 12\<rparr>,
            sampleBatch\<lparr>beginningInventory := 50, expirationDate := Date 1296000000\<rparr>]\<rparr>]"]
  by (simp add: engine_eval fl_eval split del: if_split)




text \<open>
  C7. A batch whose \<open>expirationDate\<close> does not parse gets no expiry alert: the item pushes
  no alert of type \<open>expired\<close>, \<open>critical\<close> or \<open>nearExpiry\<close>, and every alert for that batch
  in the generator's output, for any branch list, is a \<open>lowStock\<close> alert. The generator is
  a total function: it returns a list for every input.
\<close>

theorem invalid_expiry_no_alert:
  assumes "expirationDate b = InvalidDate"
  shows "filter (\<lambda>a. alertType a \<in> {Expired, Critical, NearExpiry})
                (itemAlerts now today branch b) = [] \<and>
         (\<forall>a \<in> set (generateBranchAlerts now today branches).
            item a = b \<longrightarrow> alertType a = LowStock)"
proof
  show "filter (\<lambda>a. alertType a \<in> {Expired, Critical, NearExpiry})
                (itemAlerts now today branch b) = []"
    using assms by (rule itemAlerts_expiry_invalid)
next
  show "\<forall>a \<in> set (generateBranchAlerts now today branches). item a = b \<longrightarrow> alertType a = LowStock"
  proof (intro ballI impI)
    fix a
    assume "a \<in> set (generateBranchAlerts now today branches)" and ab: "item a = b"
    then obtain br b' where "a \<in> set (itemAlerts now today br b')"
      unfolding generateBranchAlerts_set by blast
    moreover from this have "item a = b'" by (rule itemAlerts_item)
    ultimately have "a \<in> set (itemAlerts now today br b)" using ab by simp
    with assms show "alertType a = LowStock" by (rule itemAlerts_invalid_expiry)
  qed
qed

text \<open>
  An instance: a batch of 5 units with an unparseable expiration date yields one alert, for
  low stock.
\<close>

theorem invalid_expiry_no_alert_witness:
  "expirationDate (sampleBatch\<lparr>beginningInventory := 5, expirationDate := InvalidDate\<rparr>) = InvalidDate \<and>
   filter (\<lambda>a. alertType a \<in> {Expired, Critical, NearExpiry})
          (itemAlerts 864000000 864000000 sampleBranch
             (sampleBatch\<lparr>beginningInventory := 5, expirationDate := InvalidDate\<rparr>)) = [] \<and>
   map alertType
     (generateBranchAlerts 864000000 864000000
        [sampleBranch\<lparr>inventory :=
           [sampleBatch\<lparr>beginningInventory := 5, expirationDate := InvalidDate\<rparr>]\<rparr>])
     = [LowStock]"
proof -
  have h: "expirationDate (sampleBatch\<lparr>beginningInventory := 5, expirationDate := InvalidDate\<rparr>) = InvalidDate"
    by simp
  have "map alertType
     (generateBranchAlerts 864000000 864000000
        [sampleBranch\<lparr>inventory :=
           [sampleBatch\<lparr>beginningInventory := 5, expirationDate := InvalidDate\<rparr>]\<rparr>])
     = [LowStock]"
    by (simp add: engine_eval fl_eval split del: if_split)
  with h invalid_expiry_no_alert [OF h, where now = 864000000 and today = 864000000
      and branch = sampleBranch]
  show ?thesis by simp
qed



text \<open>
  C9. \<open>calculateReorderQuantity\<close> returns 0 when the batch is neither low stock nor out of
  stock; otherwise it returns
  \<open>max(ceil(u * leadTimeDays * 2 + u * leadTimeDays * safetyStockPercentage),
  config.minimumThreshold)\<close>, computed in doubles from left to right, where \<open>u\<close> is the
  average daily usage if that is greater than 0 and 1 otherwise (in particular when nothing
  has been dispensed).
\<close>

theorem calculateReorderQuantity_spec:
  "calculateReorderQuantity today b c =
     (if \<not> isLowStockField (getStockStatus today b c) \<and> \<not> isOutOfStock (getStockStatus today b c)
      then Num 0
      else let u = (case calculateAverageDailyUsage today b None of
                      Num usage \<Rightarrow> if usage > 0 then usage else 1
                    | NaN \<Rightarrow> 1)
           in Num (max (of_int \<lceil>roundDouble
                          (roundDouble (roundDouble (u * leadTimeDays c) * 2)
                           + roundDouble (roundDouble (u * leadTimeDays c)
                                            * safetyStockPercentage c))\<rceil>)
                       (minimumThreshold c)))"
  by (cases "calculateAverageDailyUsage today b None")
     (simp_all add: calculateReorderQuantity_def getStockStatus_def Let_def)

text \<open>
  Instances: a batch of 5 units never dispensed is low stock and gets
  \<open>ceil(28 + 4.2) = 33\<close>; a batch sold out after 255 units in 23 days gets 358, the sum
  being \<open>357.00000000000006\<close> in doubles; a batch of 100 units gets 0.
\<close>

theorem calculateReorderQuantity_spec_witness:
  "calculateReorderQuantity 864000000 (sampleBatch\<lparr>beginningInventory := 5\<rparr>) DEFAULT_REORDER_CONFIG
     = Num 33 \<and>
   calculateReorderQuantity 1987200000 (sampleBatch\<lparr>beginningInventory := 255, quantityDispensed := 255\<rparr>)
     DEFAULT_REORDER_CONFIG = Num 358 \<and>
   calculateReorderQuantity 864000000 sampleBatch DEFAULT_REORDER_CONFIG = Num 0"
  using calculateReorderQuantity_spec
      [of 864000000 "sampleBatch\<lparr>beginningInventory := 5\<rparr>" DEFAULT_REORDER_CONFIG]
    calculateReorderQuantity_spec
      [of 1987200000 "sampleBatch\<lparr>beginningInventory := 255, quantityDispensed := 255\<rparr>"
        DEFAULT_REORDER_CONFIG]
    calculateReorderQuantity_spec [of 864000000 sampleBatch DEFAULT_REORDER_CONFIG]
  by (simp add: engine_eval fl_eval split del: if_split)

text \<open>
  C10. For every batch and configuration, \<open>isLowStock(batch, config)\<close> and the
  \<open>isLowStock\<close> field of \<open>getStockStatus(batch, config)\<close> are the same boolean.
\<close>

theorem isLowStock_agrees:
  "isLowStock today b c = isLowStockField (getStockStatus today b c)"
proof (cases "roundDouble (roundDouble (beginningInventory b + quantityReceived b)
                            - quantityDispensed b) \<le> 0")
  case True
  then show ?thesis
    by (simp add: isLowStock_def getStockStatus_def Let_def)
next
  case False
  then show ?thesis
    by (simp add: isLowStock_def getStockStatus_def Let_def)
qed

text \<open>Instances: both are true for a batch of 5 units, both false for one of 100.\<close>

theorem isLowStock_agrees_witness:
  "isLowStock 864000000 (sampleBatch\<lparr>beginningInventory := 5\<rparr>) DEFAULT_REORDER_CONFIG \<and>
   isLowStockField (getStockStatus 864000000 (sampleBatch\<lparr>beginningInventory := 5\<rparr>)
      DEFAULT_REORDER_CONFIG) \<and>
   \<not> isLowStock 864000000 sampleBatch DEFAULT_REORDER_CONFIG \<and>
   \<not> isLowStockField (getStockStatus 864000000 sampleBatch DEFAULT_REORDER_CONFIG)"
  using isLowStock_agrees [of 864000000 "sampleBatch\<lparr>beginningInventory := 5\<rparr>" DEFAULT_REORDER_CONFIG]
    isLowStock_agrees [of 864000000 sampleBatch DEFAULT_REORDER_CONFIG]
  by (simp add: engine_eval fl_eval split del: if_split)

end
